theory Spec2Isabelle
  imports Main
begin

section \<open>The TensorFlow prediction pipeline as a task graph\<close>

text \<open>
  The module \<^verbatim>\<open>pipelines/tensorflow/prediction/pipeline.py\<close> holds one function,
  \<^verbatim>\<open>tensorflow_pipeline\<close>, which declares ten tasks and wires them together, either by
  passing an output of one task as an argument of another, or by the method
  \<^verbatim>\<open>.after(...)\<close>, which orders two tasks without passing data. This theory embeds that
  function: every local variable of the function is a definition of the same name, and the
  graph it builds is the list of its tasks in the order in which the function creates them.
  The module's other function, \<^verbatim>\<open>compile\<close>, hands the graph to the compiler of the
  pipeline library and adds nothing to it.
\<close>

subsection \<open>Pipeline parameters\<close>

text \<open>
  The parameters of \<^verbatim>\<open>tensorflow_pipeline\<close>, with the types of their annotations. The
  defaults read from \<^verbatim>\<open>os.environ\<close> only say which value a parameter has when the caller
  gives none; the graph is built from the values themselves.
\<close>

record parameters =
  project_id :: string
  project_location :: string
  pipeline_files_gcs_path :: string
  ingestion_project_id :: string
  tfdv_schema_filename :: string
  tfdv_train_stats_path :: string
  model_name :: string
  model_label :: string
  dataset_id :: string
  dataset_location :: string
  ingestion_dataset_id :: string
  timestamp :: string
  batch_prediction_machine_type :: string
  batch_prediction_min_replicas :: int
  batch_prediction_max_replicas :: int

subsection \<open>Tasks, arguments and output references\<close>

text \<open>
  A file-system path as \<^verbatim>\<open>pathlib\<close> sees it: the list of its components. \<^verbatim>\<open>.parent\<close> drops
  the last component and \<^verbatim>\<open>/\<close> appends one.
\<close>

type_synonym path = "string list"

definition parent :: "path \<Rightarrow> path" where
  "parent f = butlast f"

definition slash :: "path \<Rightarrow> string \<Rightarrow> path" where
  "slash d n = d @ [n]"

text \<open>The query that the templater renders: the table it reads and the filter it applies.\<close>

record query =
  from_table :: string
  where_filter :: string

text \<open>
  What a task can be given as an argument: a string, a boolean, an integer, a rendered
  query, a dictionary serialised by \<^verbatim>\<open>json.dumps\<close>, the named output
  \<^verbatim>\<open>task.outputs[key]\<close> of another task, or the single output \<^verbatim>\<open>task.output\<close> of
  another task. Tasks are referred to by the name of the Python variable that holds them.
\<close>

datatype arg_value =
    StrArg string
  | BoolArg bool
  | IntArg int
  | QueryArg query
  | JsonArg "(string \<times> string) list"
  | Outputs string string
  | Output string

text \<open>A component is called with keyword arguments and, once in this module, with a
  positional one.\<close>

datatype arg_key = Kw string | Pos nat

record task =
  task_name :: string
  component :: string
  display_name :: string
  arguments :: "(arg_key \<times> arg_value) list"
  dependent_tasks :: "string list"

text \<open>Calling a component creates a task that has no ordering constraint yet.\<close>

definition call :: "string \<Rightarrow> string \<Rightarrow> (arg_key \<times> arg_value) list \<Rightarrow> task" where
  "call c n args =
     \<lparr>task_name = n, component = c, display_name = c, arguments = args,
      dependent_tasks = []\<rparr>"

text \<open>The two methods the module chains on a task.\<close>

definition after :: "task \<Rightarrow> task \<Rightarrow> task" where
  "after t u = t\<lparr>dependent_tasks := dependent_tasks t @ [task_name u]\<rparr>"

definition set_display_name :: "task \<Rightarrow> string \<Rightarrow> task" where
  "set_display_name t s = t\<lparr>display_name := s\<rparr>"

text \<open>\<^verbatim>\<open>task.outputs[key]\<close>, and \<^verbatim>\<open>task.output\<close> for a task with one output.\<close>

definition outputs :: "task \<Rightarrow> string \<Rightarrow> arg_value" where
  "outputs t k = Outputs (task_name t) k"

definition single_output :: "task \<Rightarrow> arg_value" where
  "single_output t = Output (task_name t)"

text \<open>\<^verbatim>\<open>json.dumps(dict(...))\<close>: the argument is the serialised dictionary; the model keeps
  the dictionary that the string stands for.\<close>

definition json_dumps :: "(string \<times> string) list \<Rightarrow> arg_value" where
  "json_dumps d = JsonArg d"

definition lookup_arg :: "task \<Rightarrow> arg_key \<Rightarrow> arg_value option" where
  "lookup_arg t k = map_of (arguments t) k"

text \<open>The tasks an argument refers to, and the two kinds of dependency of a task: the
  producers of its arguments and the tasks it was ordered after.\<close>

primrec producers :: "arg_value \<Rightarrow> string list" where
  "producers (StrArg s) = []"
| "producers (BoolArg b) = []"
| "producers (IntArg i) = []"
| "producers (QueryArg q) = []"
| "producers (JsonArg d) = []"
| "producers (Outputs t k) = [t]"
| "producers (Output t) = [t]"

definition data_dependencies :: "task \<Rightarrow> string list" where
  "data_dependencies t = concat (map (\<lambda>(k, v). producers v) (arguments t))"

definition dependencies :: "task \<Rightarrow> string list" where
  "dependencies t = data_dependencies t @ dependent_tasks t"

subsection \<open>The query templater\<close>

text \<open>
  Modelled from the spec: the function \<^verbatim>\<open>generate_query\<close> of the package \<^verbatim>\<open>pipelines\<close> and
  the template \<^verbatim>\<open>queries/ingest.sql\<close> are not among the sources. The spec describes the
  templater as rendering ``a parameterized extraction query given a source table, a time
  column, and a cutoff timestamp'', and the rendered query as filtering
  \<^verbatim>\<open>trip_start_timestamp >= '2022-12-01 00:00:00'\<close> against
  \<^verbatim>\<open>{ingestion_project_id}.chicago_taxi_trips.taxi_trips\<close>: the table is the source dataset
  and the source table joined by a dot, and the filter compares the column with the
  quoted start value. The path of the template is an argument, as in the call, but the spec
  says nothing of the template's text, so the rendered query does not depend on it.
\<close>

definition quoted :: "string \<Rightarrow> string" where
  "quoted s = [CHR 0x27] @ s @ [CHR 0x27]"

definition generate_query :: "path \<Rightarrow> string \<Rightarrow> string \<Rightarrow> string \<Rightarrow> string \<Rightarrow> query" where
  "generate_query template source_dataset source_table filter_column filter_start_value =
     \<lparr>from_table = source_dataset @ ''.'' @ source_table,
      where_filter = filter_column @ '' >= '' @ quoted filter_start_value\<rparr>"

subsection \<open>The body of \<^verbatim>\<open>tensorflow_pipeline\<close>\<close>

definition file_pattern :: string where
  "file_pattern = ''''"

definition time_column :: string where
  "time_column = ''trip_start_timestamp''"

definition ingestion_table :: string where
  "ingestion_table = ''taxi_trips''"

definition table_suffix :: string where
  "table_suffix = ''_tf_prediction''"

definition ingested_table :: string where
  "ingested_table = ''ingested_data'' @ table_suffix"

text \<open>\<^verbatim>\<open>file\<close> is the module's \<^verbatim>\<open>__file__\<close>, the one thing the body reads that is not a
  parameter.\<close>

definition queries_folder :: "path \<Rightarrow> path" where
  "queries_folder file = slash (parent file) ''queries''"

definition ingest_query :: "path \<Rightarrow> parameters \<Rightarrow> query" where
  "ingest_query file p =
     generate_query (slash (queries_folder file) ''ingest.sql'')
       (ingestion_project_id p @ ''.'' @ ingestion_dataset_id p)
       ingestion_table
       time_column
       (timestamp p)"

definition kwargs :: "parameters \<Rightarrow> (arg_key \<times> arg_value) list" where
  "kwargs p =
     [(Kw ''bq_client_project_id'', StrArg (project_id p)),
      (Kw ''destination_project_id'', StrArg (project_id p)),
      (Kw ''dataset_id'', StrArg (dataset_id p)),
      (Kw ''dataset_location'', StrArg (dataset_location p)),
      (Kw ''query_job_config'', json_dumps [(''write_disposition'', ''WRITE_TRUNCATE'')])]"

definition ingest :: "path \<Rightarrow> parameters \<Rightarrow> task" where
  "ingest file p =
     set_display_name
       (call ''bq_query_to_table'' ''ingest''
          ([(Kw ''query'', QueryArg (ingest_query file p)),
            (Kw ''table_id'', StrArg ingested_table)] @ kwargs p))
       ''Ingest data''"

definition data_for_prediction :: "path \<Rightarrow> parameters \<Rightarrow> task" where
  "data_for_prediction file p =
     set_display_name
       (after
          (call ''extract_bq_to_dataset'' ''data_for_prediction''
             [(Kw ''bq_client_project_id'', StrArg (project_id p)),
              (Kw ''source_project_id'', StrArg (project_id p)),
              (Kw ''dataset_id'', StrArg (dataset_id p)),
              (Kw ''table_name'', StrArg ingested_table),
              (Kw ''dataset_location'', StrArg (dataset_location p)),
              (Kw ''extract_job_config'',
                 json_dumps [(''destination_format'', ''NEWLINE_DELIMITED_JSON'')]),
              (Kw ''file_pattern'', StrArg file_pattern)])
          (ingest file p))
       ''Extract data to storage for prediction''"

definition data_for_validation :: "path \<Rightarrow> parameters \<Rightarrow> task" where
  "data_for_validation file p =
     set_display_name
       (after
          (call ''extract_bq_to_dataset'' ''data_for_validation''
             [(Kw ''bq_client_project_id'', StrArg (project_id p)),
              (Kw ''source_project_id'', StrArg (project_id p)),
              (Kw ''dataset_id'', StrArg (dataset_id p)),
              (Kw ''table_name'', StrArg ingested_table),
              (Kw ''dataset_location'', StrArg (dataset_location p)),
              (Kw ''extract_job_config'', json_dumps [(''destination_format'', ''CSV'')]),
              (Kw ''file_pattern'', StrArg file_pattern)])
          (ingest file p))
       ''Extract data to storage for validation''"

definition serving_stats :: "path \<Rightarrow> parameters \<Rightarrow> task" where
  "serving_stats file p =
     set_display_name
       (call ''generate_statistics'' ''serving_stats''
          [(Pos 0, outputs (data_for_validation file p) ''dataset''),
           (Kw ''file_pattern'', StrArg file_pattern)])
       ''Generate data statistics''"

definition visualised_statistics :: "path \<Rightarrow> parameters \<Rightarrow> task" where
  "visualised_statistics file p =
     set_display_name
       (call ''visualise_statistics'' ''visualised_statistics''
          [(Kw ''statistics'', single_output (serving_stats file p)),
           (Kw ''statistics_name'', StrArg ''Serving Statistics''),
           (Kw ''other_statistics_path'', StrArg (tfdv_train_stats_path p)),
           (Kw ''other_statistics_name'', StrArg ''Training Statistics'')])
       ''Visualise data statistics''"

definition tfdv_schema_path :: "parameters \<Rightarrow> string" where
  "tfdv_schema_path p =
     pipeline_files_gcs_path p @ ''/prediction/assets/'' @ tfdv_schema_filename p"

definition validated_skew :: "path \<Rightarrow> parameters \<Rightarrow> task" where
  "validated_skew file p =
     set_display_name
       (call ''validate_skew'' ''validated_skew''
          [(Kw ''training_statistics_path'', StrArg (tfdv_train_stats_path p)),
           (Kw ''schema_path'', StrArg (tfdv_schema_path p)),
           (Kw ''serving_statistics'', single_output (serving_stats file p)),
           (Kw ''environment'', StrArg ''SERVING'')])
       ''Validate data skew''"

definition anomalies :: "path \<Rightarrow> parameters \<Rightarrow> task" where
  "anomalies file p =
     set_display_name
       (call ''show_anomalies'' ''anomalies''
          [(Kw ''anomalies'', single_output (validated_skew file p)),
           (Kw ''fail_on_anomalies'', BoolArg True)])
       ''Show anomalies''"

definition champion_model :: "parameters \<Rightarrow> task" where
  "champion_model p =
     set_display_name
       (call ''lookup_model'' ''champion_model''
          [(Kw ''model_name'', StrArg (model_name p)),
           (Kw ''model_label'', StrArg (model_label p)),
           (Kw ''project_location'', StrArg (project_location p)),
           (Kw ''project_id'', StrArg (project_id p)),
           (Kw ''fail_on_model_not_found'', BoolArg True)])
       ''Lookup champion model''"

definition gcs_source_uris :: "path \<Rightarrow> parameters \<Rightarrow> arg_value" where
  "gcs_source_uris file p = outputs (data_for_prediction file p) ''dataset_gcs_uri''"

definition gcs_destination_output_uri_prefix :: "path \<Rightarrow> parameters \<Rightarrow> arg_value" where
  "gcs_destination_output_uri_prefix file p =
     outputs (data_for_prediction file p) ''dataset_gcs_prefix''"

definition batch_prediction :: "path \<Rightarrow> parameters \<Rightarrow> task" where
  "batch_prediction file p =
     set_display_name
       (after
          (call ''ModelBatchPredictOp'' ''batch_prediction''
             [(Kw ''project'', StrArg (project_id p)),
              (Kw ''job_display_name'', StrArg ''my-tensorflow-batch-prediction-job''),
              (Kw ''location'', StrArg (project_location p)),
              (Kw ''model'', outputs (champion_model p) ''model''),
              (Kw ''instances_format'', StrArg ''jsonl''),
              (Kw ''predictions_format'', StrArg ''jsonl''),
              (Kw ''gcs_source_uris'', gcs_source_uris file p),
              (Kw ''gcs_destination_output_uri_prefix'',
                 gcs_destination_output_uri_prefix file p),
              (Kw ''machine_type'', StrArg (batch_prediction_machine_type p)),
              (Kw ''starting_replica_count'', IntArg (batch_prediction_min_replicas p)),
              (Kw ''max_replica_count'', IntArg (batch_prediction_max_replicas p))])
          (anomalies file p))
       ''Vertex Batch Predictions for TF model''"

definition loaded_data :: "path \<Rightarrow> parameters \<Rightarrow> task" where
  "loaded_data file p =
     set_display_name
       (after
          (call ''load_dataset_to_bq'' ''loaded_data''
             [(Kw ''bq_client_project_id'', StrArg (project_id p)),
              (Kw ''destination_project_id'', StrArg (project_id p)),
              (Kw ''dataset_id'', StrArg (dataset_id p)),
              (Kw ''table_name'', StrArg ''tensorflow_staging_predictions''),
              (Kw ''dataset'', outputs (batch_prediction file p) ''batchpredictionjob''),
              (Kw ''dataset_location'', StrArg (dataset_location p))])
          (batch_prediction file p))
       ''Load predictions into Bigquery''"

text \<open>The graph: the tasks in the order in which the body creates them.\<close>

definition tensorflow_pipeline :: "path \<Rightarrow> parameters \<Rightarrow> task list" where
  "tensorflow_pipeline file p =
     [ingest file p,
      data_for_prediction file p,
      data_for_validation file p,
      serving_stats file p,
      visualised_statistics file p,
      validated_skew file p,
      anomalies file p,
      champion_model p,
      batch_prediction file p,
      loaded_data file p]"

subsection \<open>The staging table written by the ingest task\<close>

text \<open>
  Modelled from the spec: the component \<^verbatim>\<open>bq_query_to_table\<close> is not among the sources. The
  spec describes it as a connector that runs a query and materializes its result as a
  warehouse table, and the write mode the module configures as ``truncate-and-replace (each
  run fully replaces prior contents of that staging table -- no incremental append)''.
  \<open>materialize\<close> gives the contents of the destination table after the job, from its prior
  contents and the rows the query returns.
\<close>

datatype write_mode = Truncate_and_replace | Incremental_append

fun write_mode_of :: "arg_value option \<Rightarrow> write_mode option" where
  "write_mode_of (Some (JsonArg d)) =
     (case map_of d ''write_disposition'' of
        None \<Rightarrow> None
      | Some v \<Rightarrow>
          if v = ''WRITE_TRUNCATE'' then Some Truncate_and_replace
          else if v = ''WRITE_APPEND'' then Some Incremental_append
          else None)"
| "write_mode_of _ = None"

fun materialize :: "write_mode \<Rightarrow> 'r list \<Rightarrow> 'r list \<Rightarrow> 'r list" where
  "materialize Truncate_and_replace prior rows = rows"
| "materialize Incremental_append prior rows = prior @ rows"

definition table_after :: "task \<Rightarrow> 'r list \<Rightarrow> 'r list \<Rightarrow> 'r list option" where
  "table_after t prior rows =
     map_option (\<lambda>m. materialize m prior rows)
       (write_mode_of (lookup_arg t (Kw ''query_job_config'')))"

subsection \<open>Where an extract task writes\<close>

text \<open>
  Modelled from the spec: the component \<^verbatim>\<open>extract_bq_to_dataset\<close> is not among the sources,
  and the builder passes it no destination. The spec has the connector ``export a warehouse
  table to object storage in a chosen format'', and has the side effects of each step, its
  new storage objects among them, ``scoped to names it alone writes, so concurrent
  independent steps cannot collide''. So the files of an extract task go to the storage
  location that the engine keeps for that task. How the engine lays out its storage is not
  the module's business: \<open>location\<close> maps the name of a task to its place, and the scoping
  that the spec promises is that this map is injective.
\<close>

definition extract_destination :: "(string \<Rightarrow> string) \<Rightarrow> task \<Rightarrow> string" where
  "extract_destination location t = location (task_name t)"

subsection \<open>Running the graph\<close>

text \<open>
  Modelled from the spec: the components \<^verbatim>\<open>show_anomalies\<close> and \<^verbatim>\<open>lookup_model\<close> are not
  among the sources, and the engine that runs the graph is external. The spec gives what
  is needed of them.
  \<^item> The anomaly gate: ``if configured to fail on anomalies and any are present, the
    workflow halts here''; ``if no anomalies (or the gate is configured permissive),
    execution proceeds''.
  \<^item> The model resolver ``looks up a previously registered model by name and a label'' and
    must ``fail the run if none exists and failure-on-missing is enabled''.
  \<^item> Any other failure of a connector or engine ``is surfaced as a run failure of that
    step''.
  \<^item> The engine ``follows the declared partial order'': a task is started only when every
    task it depends on, by data or by ordering, has succeeded; tasks that do not depend on
    each other may run in any order.

  The environment of a run fixes what the run cannot control: the anomalies that the skew
  validator reports, the models that are registered (name and label), and whether the
  service behind each task works.
\<close>

record run_env =
  anomaly_report :: "string list"
  registry :: "(string \<times> string) list"
  engine_ok :: "string \<Rightarrow> bool"

definition flag :: "task \<Rightarrow> string \<Rightarrow> bool" where
  "flag t k = (lookup_arg t (Kw k) = Some (BoolArg True))"

definition show_anomalies_fails :: "run_env \<Rightarrow> task \<Rightarrow> bool" where
  "show_anomalies_fails env t = (flag t ''fail_on_anomalies'' \<and> anomaly_report env \<noteq> [])"

definition matching_models :: "run_env \<Rightarrow> task \<Rightarrow> (string \<times> string) list" where
  "matching_models env t =
     filter (\<lambda>(n, l). lookup_arg t (Kw ''model_name'') = Some (StrArg n) \<and>
                       lookup_arg t (Kw ''model_label'') = Some (StrArg l))
       (registry env)"

definition lookup_model_fails :: "run_env \<Rightarrow> task \<Rightarrow> bool" where
  "lookup_model_fails env t =
     (flag t ''fail_on_model_not_found'' \<and> matching_models env t = [])"

definition succeeds :: "run_env \<Rightarrow> task \<Rightarrow> bool" where
  "succeeds env t =
     (if \<not> engine_ok env (task_name t) then False
      else if component t = ''show_anomalies'' then \<not> show_anomalies_fails env t
      else if component t = ''lookup_model'' then \<not> lookup_model_fails env t
      else True)"

text \<open>The state of a run: the tasks that were started and succeeded, and those that were
  started and failed, each in the order in which they ended.\<close>

record run_state =
  succeeded :: "string list"
  failed :: "string list"

definition initial :: run_state where
  "initial = \<lparr>succeeded = [], failed = []\<rparr>"

definition scheduled :: "run_state \<Rightarrow> string set" where
  "scheduled s = set (succeeded s) \<union> set (failed s)"

definition ready :: "run_state \<Rightarrow> task \<Rightarrow> bool" where
  "ready s t = (set (dependencies t) \<subseteq> set (succeeded s))"

text \<open>Every state a run can be in: the engine picks any task of the graph that has not been
  started and is ready, and the task succeeds or fails as the environment decides. An
  engine that stops starting tasks after the first failure reaches a subset of these
  states.\<close>

inductive reachable :: "task list \<Rightarrow> run_env \<Rightarrow> run_state \<Rightarrow> bool"
  for g :: "task list" and env :: run_env where
  start: "reachable g env initial"
| success:
    "reachable g env s \<Longrightarrow> t \<in> set g \<Longrightarrow> task_name t \<notin> scheduled s \<Longrightarrow> ready s t \<Longrightarrow>
     succeeds env t \<Longrightarrow> reachable g env (s\<lparr>succeeded := succeeded s @ [task_name t]\<rparr>)"
| failure:
    "reachable g env s \<Longrightarrow> t \<in> set g \<Longrightarrow> task_name t \<notin> scheduled s \<Longrightarrow> ready s t \<Longrightarrow>
     \<not> succeeds env t \<Longrightarrow> reachable g env (s\<lparr>failed := failed s @ [task_name t]\<rparr>)"

text \<open>One schedule among them, as a function: the tasks are tried in the order of the
  list.\<close>

definition run_task :: "run_env \<Rightarrow> run_state \<Rightarrow> task \<Rightarrow> run_state" where
  "run_task env s t =
     (if task_name t \<in> scheduled s \<or> \<not> ready s t then s
      else if succeeds env t then s\<lparr>succeeded := succeeded s @ [task_name t]\<rparr>
      else s\<lparr>failed := failed s @ [task_name t]\<rparr>)"

definition execute :: "task list \<Rightarrow> run_env \<Rightarrow> run_state" where
  "execute g env = foldl (run_task env) initial g"

subsection \<open>Well-formed graphs\<close>

text \<open>The edges of a graph lead from a task to each task that depends on it.\<close>

definition edges :: "task list \<Rightarrow> (string \<times> string) set" where
  "edges g = {(d, task_name t) | d t. t \<in> set g \<and> d \<in> set (dependencies t)}"

text \<open>A check that runs along the list: every task depends only on tasks seen before it,
  and no name is used twice.\<close>

fun ordered_before :: "string list \<Rightarrow> task list \<Rightarrow> bool" where
  "ordered_before seen [] = True"
| "ordered_before seen (t # ts) =
     (set (dependencies t) \<subseteq> set seen \<and> task_name t \<notin> set seen \<and>
      ordered_before (task_name t # seen) ts)"

text \<open>The position of the first task of a given name.\<close>

fun rank :: "string \<Rightarrow> task list \<Rightarrow> nat" where
  "rank n [] = 0"
| "rank n (t # ts) = (if task_name t = n then 0 else Suc (rank n ts))"

text \<open>The schema path as the spec words it: the base path, the fixed sub-path and the
  file name, joined by the separator.\<close>

fun join_paths :: "string list \<Rightarrow> string" where
  "join_paths [] = ''''"
| "join_paths [x] = x"
| "join_paths (x # y # ys) = x @ ''/'' @ join_paths (y # ys)"

text \<open>A parameter assignment for examples: the defaults the module writes out, and
  sample values where the default is read from the process environment.\<close>

definition example_parameters :: parameters where
  "example_parameters =
     \<lparr>project_id = ''my-project'',
      project_location = ''europe-west2'',
      pipeline_files_gcs_path = ''gs://bucket'',
      ingestion_project_id = ''my-project'',
      tfdv_schema_filename = ''tfdv_schema_serving.pbtxt'',
      tfdv_train_stats_path = ''gs://bucket/train_stats/train.stats'',
      model_name = ''tensorflow_with_preprocessing'',
      model_label = ''label_name'',
      dataset_id = ''preprocessing'',
      dataset_location = ''europe-west2'',
      ingestion_dataset_id = ''chicago_taxi_trips'',
      timestamp = ''2022-12-01 00:00:00'',
      batch_prediction_machine_type = ''n1-standard-4'',
      batch_prediction_min_replicas = 3,
      batch_prediction_max_replicas = 10\<rparr>"

definition example_file :: path where
  "example_file = [''pipelines'', ''tensorflow'', ''prediction'', ''pipeline.py'']"

text \<open>A storage layout for examples: one folder for each task under the root of the run.\<close>

definition example_location :: "string \<Rightarrow> string" where
  "example_location n = ''gs://bucket/pipeline_root/'' @ n"

text \<open>Three environments for examples: a report with an anomaly, a registry without the
  model, and a run in which nothing goes wrong.\<close>

definition env_anomalies :: run_env where
  "env_anomalies = \<lparr>anomaly_report = [''trip_miles: skew above threshold''],
     registry = [(''tensorflow_with_preprocessing'', ''label_name'')], engine_ok = (\<lambda>n. True)\<rparr>"

definition env_no_model :: run_env where
  "env_no_model = \<lparr>anomaly_report = [],
     registry = [(''another_model'', ''label_name'')], engine_ok = (\<lambda>n. True)\<rparr>"

definition env_clean :: run_env where
  "env_clean = \<lparr>anomaly_report = [],
     registry = [(''tensorflow_with_preprocessing'', ''label_name'')], engine_ok = (\<lambda>n. True)\<rparr>"

section \<open>Properties of the graph\<close>

subsection \<open>What each task is called, depends on and is given\<close>

text \<open>The definitions that make up the body of the builder, unfolded together.\<close>

lemmas builder_defs =
  ingest_def data_for_prediction_def data_for_validation_def serving_stats_def
  visualised_statistics_def validated_skew_def anomalies_def champion_model_def
  batch_prediction_def loaded_data_def gcs_source_uris_def
  gcs_destination_output_uri_prefix_def kwargs_def
  call_def after_def set_display_name_def outputs_def single_output_def json_dumps_def

lemma task_names:
  "task_name (ingest file p) = ''ingest''"
  "task_name (data_for_prediction file p) = ''data_for_prediction''"
  "task_name (data_for_validation file p) = ''data_for_validation''"
  "task_name (serving_stats file p) = ''serving_stats''"
  "task_name (visualised_statistics file p) = ''visualised_statistics''"
  "task_name (validated_skew file p) = ''validated_skew''"
  "task_name (anomalies file p) = ''anomalies''"
  "task_name (champion_model p) = ''champion_model''"
  "task_name (batch_prediction file p) = ''batch_prediction''"
  "task_name (loaded_data file p) = ''loaded_data''"
  by (simp_all add: builder_defs)

lemma task_components:
  "component (ingest file p) = ''bq_query_to_table''"
  "component (data_for_prediction file p) = ''extract_bq_to_dataset''"
  "component (data_for_validation file p) = ''extract_bq_to_dataset''"
  "component (serving_stats file p) = ''generate_statistics''"
  "component (visualised_statistics file p) = ''visualise_statistics''"
  "component (validated_skew file p) = ''validate_skew''"
  "component (anomalies file p) = ''show_anomalies''"
  "component (champion_model p) = ''lookup_model''"
  "component (batch_prediction file p) = ''ModelBatchPredictOp''"
  "component (loaded_data file p) = ''load_dataset_to_bq''"
  by (simp_all add: builder_defs)

text \<open>The dependencies of each task: the producers of its arguments, in the order of the
  arguments, followed by the tasks it was ordered after.\<close>

lemma task_dependencies:
  "dependencies (ingest file p) = []"
  "dependencies (data_for_prediction file p) = [''ingest'']"
  "dependencies (data_for_validation file p) = [''ingest'']"
  "dependencies (serving_stats file p) = [''data_for_validation'']"
  "dependencies (visualised_statistics file p) = [''serving_stats'']"
  "dependencies (validated_skew file p) = [''serving_stats'']"
  "dependencies (anomalies file p) = [''validated_skew'']"
  "dependencies (champion_model p) = []"
  "dependencies (batch_prediction file p) =
     [''champion_model'', ''data_for_prediction'', ''data_for_prediction'', ''anomalies'']"
  "dependencies (loaded_data file p) = [''batch_prediction'', ''batch_prediction'']"
  by (simp_all add: builder_defs dependencies_def data_dependencies_def)

lemma ordering_edges:
  "dependent_tasks (ingest file p) = []"
  "dependent_tasks (data_for_prediction file p) = [''ingest'']"
  "dependent_tasks (data_for_validation file p) = [''ingest'']"
  "dependent_tasks (batch_prediction file p) = [''anomalies'']"
  "dependent_tasks (loaded_data file p) = [''batch_prediction'']"
  by (simp_all add: builder_defs)

lemma data_edges:
  "data_dependencies (data_for_prediction file p) = []"
  "data_dependencies (data_for_validation file p) = []"
  "data_dependencies (batch_prediction file p) =
     [''champion_model'', ''data_for_prediction'', ''data_for_prediction'']"
  "data_dependencies (loaded_data file p) = [''batch_prediction'']"
  by (simp_all add: builder_defs data_dependencies_def)

text \<open>The arguments the claims speak about.\<close>

lemma task_arguments:
  "lookup_arg (anomalies file p) (Kw ''fail_on_anomalies'') = Some (BoolArg True)"
  "lookup_arg (champion_model p) (Kw ''fail_on_model_not_found'') = Some (BoolArg True)"
  "lookup_arg (champion_model p) (Kw ''model_name'') = Some (StrArg (model_name p))"
  "lookup_arg (champion_model p) (Kw ''model_label'') = Some (StrArg (model_label p))"
  "lookup_arg (batch_prediction file p) (Kw ''model'') = Some (Outputs ''champion_model'' ''model'')"
  by (simp_all add: lookup_arg_def builder_defs)

lemma ingest_arguments:
  "lookup_arg (ingest file p) (Kw ''query'') = Some (QueryArg (ingest_query file p))"
  "lookup_arg (ingest file p) (Kw ''table_id'') = Some (StrArg ingested_table)"
  "lookup_arg (ingest file p) (Kw ''destination_project_id'') = Some (StrArg (project_id p))"
  "lookup_arg (ingest file p) (Kw ''dataset_id'') = Some (StrArg (dataset_id p))"
  "lookup_arg (ingest file p) (Kw ''query_job_config'') =
     Some (JsonArg [(''write_disposition'', ''WRITE_TRUNCATE'')])"
  by (simp_all add: lookup_arg_def builder_defs)

lemma extract_arguments:
  "lookup_arg (data_for_prediction file p) (Kw ''source_project_id'') =
     Some (StrArg (project_id p))"
  "lookup_arg (data_for_validation file p) (Kw ''source_project_id'') =
     Some (StrArg (project_id p))"
  "lookup_arg (data_for_prediction file p) (Kw ''dataset_id'') = Some (StrArg (dataset_id p))"
  "lookup_arg (data_for_validation file p) (Kw ''dataset_id'') = Some (StrArg (dataset_id p))"
  "lookup_arg (data_for_prediction file p) (Kw ''table_name'') = Some (StrArg ingested_table)"
  "lookup_arg (data_for_validation file p) (Kw ''table_name'') = Some (StrArg ingested_table)"
  "lookup_arg (data_for_prediction file p) (Kw ''file_pattern'') = Some (StrArg '''')"
  "lookup_arg (data_for_validation file p) (Kw ''file_pattern'') = Some (StrArg '''')"
  "lookup_arg (data_for_prediction file p) (Kw ''extract_job_config'') =
     Some (JsonArg [(''destination_format'', ''NEWLINE_DELIMITED_JSON'')])"
  "lookup_arg (data_for_validation file p) (Kw ''extract_job_config'') =
     Some (JsonArg [(''destination_format'', ''CSV'')])"
  by (simp_all add: lookup_arg_def builder_defs file_pattern_def)

lemma schema_path_argument:
  "lookup_arg (validated_skew file p) (Kw ''schema_path'') = Some (StrArg (tfdv_schema_path p))"
  by (simp add: lookup_arg_def builder_defs)

lemma consumer_arguments:
  "lookup_arg (serving_stats file p) (Pos 0) = Some (Outputs ''data_for_validation'' ''dataset'')"
  "lookup_arg (batch_prediction file p) (Kw ''gcs_source_uris'') =
     Some (Outputs ''data_for_prediction'' ''dataset_gcs_uri'')"
  "lookup_arg (batch_prediction file p) (Kw ''gcs_destination_output_uri_prefix'') =
     Some (Outputs ''data_for_prediction'' ''dataset_gcs_prefix'')"
  by (simp_all add: lookup_arg_def builder_defs)

lemma gate_flag: "flag (anomalies file p) ''fail_on_anomalies''"
  by (simp add: flag_def task_arguments)

lemma lookup_flag: "flag (champion_model p) ''fail_on_model_not_found''"
  by (simp add: flag_def task_arguments)

text \<open>The tasks of the graph, and which task a name stands for.\<close>

lemma pipeline_members:
  "batch_prediction file p \<in> set (tensorflow_pipeline file p)"
  "loaded_data file p \<in> set (tensorflow_pipeline file p)"
  "anomalies file p \<in> set (tensorflow_pipeline file p)"
  "champion_model p \<in> set (tensorflow_pipeline file p)"
  "visualised_statistics file p \<in> set (tensorflow_pipeline file p)"
  "validated_skew file p \<in> set (tensorflow_pipeline file p)"
  "ingest file p \<in> set (tensorflow_pipeline file p)"
  "data_for_prediction file p \<in> set (tensorflow_pipeline file p)"
  "data_for_validation file p \<in> set (tensorflow_pipeline file p)"
  "serving_stats file p \<in> set (tensorflow_pipeline file p)"
  by (simp_all add: tensorflow_pipeline_def)

lemma pipeline_task_by_name:
  assumes "t \<in> set (tensorflow_pipeline file p)"
  shows "task_name t = ''anomalies'' \<Longrightarrow> t = anomalies file p"
    and "task_name t = ''champion_model'' \<Longrightarrow> t = champion_model p"
    and "task_name t = ''batch_prediction'' \<Longrightarrow> t = batch_prediction file p"
    and "task_name t = ''loaded_data'' \<Longrightarrow> t = loaded_data file p"
  using assms by (auto simp: tensorflow_pipeline_def task_names)

subsection \<open>Graphs whose tasks depend only on earlier tasks\<close>

text \<open>In a list that passes the check, no task is named like one seen before, names are
  distinct, every dependency has a smaller index and a smaller rank, and so the edges form
  no cycle.\<close>

lemma ordered_before_fresh:
  "ordered_before seen g \<Longrightarrow> t \<in> set g \<Longrightarrow> task_name t \<notin> set seen"
proof (induction g arbitrary: seen)
  case Nil
  then show ?case by simp
next
  case (Cons x xs)
  show ?case
  proof (cases "t = x")
    case True
    with Cons.prems show ?thesis by simp
  next
    case False
    with Cons.prems have "t \<in> set xs" and "ordered_before (task_name x # seen) xs"
      by simp_all
    then have "task_name t \<notin> set (task_name x # seen)"
      by (rule Cons.IH[rotated])
    then show ?thesis by simp
  qed
qed

lemma ordered_before_distinct:
  "ordered_before seen g \<Longrightarrow> distinct (map task_name g)"
proof (induction g arbitrary: seen)
  case Nil
  then show ?case by simp
next
  case (Cons x xs)
  then have tl: "ordered_before (task_name x # seen) xs" by simp
  have "task_name x \<notin> task_name ` set xs"
  proof
    assume "task_name x \<in> task_name ` set xs"
    then obtain t where "t \<in> set xs" and "task_name t = task_name x" by auto
    with ordered_before_fresh[OF tl] show False by fastforce
  qed
  with Cons.IH[OF tl] show ?case by simp
qed

lemma ordered_before_nth:
  "ordered_before seen g \<Longrightarrow> i < length g \<Longrightarrow> d \<in> set (dependencies (g ! i)) \<Longrightarrow>
   d \<in> set seen \<or> (\<exists>j<i. task_name (g ! j) = d)"
proof (induction g arbitrary: seen i)
  case Nil
  then show ?case by simp
next
  case (Cons x xs)
  show ?case
  proof (cases i)
    case 0
    with Cons.prems show ?thesis by auto
  next
    case (Suc k)
    with Cons.prems have "ordered_before (task_name x # seen) xs" "k < length xs"
      "d \<in> set (dependencies (xs ! k))" by simp_all
    then have "d \<in> set (task_name x # seen) \<or> (\<exists>j<k. task_name (xs ! j) = d)"
      by (rule Cons.IH)
    then consider "d = task_name x" | "d \<in> set seen" | j where "j < k" "task_name (xs ! j) = d"
      by auto
    then show ?thesis
    proof cases
      case 1
      then have "task_name ((x # xs) ! 0) = d" by simp
      with Suc show ?thesis by blast
    next
      case 2
      then show ?thesis by simp
    next
      case 3
      then have "Suc j < i" "task_name ((x # xs) ! Suc j) = d" using Suc by simp_all
      then show ?thesis by blast
    qed
  qed
qed

lemma ordered_before_rank:
  "ordered_before seen g \<Longrightarrow> t \<in> set g \<Longrightarrow> d \<in> set (dependencies t) \<Longrightarrow>
   d \<in> set seen \<or> rank d g < rank (task_name t) g"
proof (induction g arbitrary: seen)
  case Nil
  then show ?case by simp
next
  case (Cons x xs)
  show ?case
  proof (cases "t = x")
    case True
    with Cons.prems show ?thesis by auto
  next
    case False
    with Cons.prems have tl: "ordered_before (task_name x # seen) xs" and t: "t \<in> set xs"
      by simp_all
    from ordered_before_fresh[OF tl t] have ne: "task_name x \<noteq> task_name t" by auto
    from Cons.IH[OF tl t Cons.prems(3)]
    have "d \<in> set (task_name x # seen) \<or> rank d xs < rank (task_name t) xs" .
    with ne show ?thesis by auto
  qed
qed

lemma ordered_before_acyclic:
  assumes "ordered_before [] g"
  shows "acyclic (edges g)"
proof -
  have "edges g \<subseteq> measure (\<lambda>n. rank n g)"
    using ordered_before_rank[OF assms] by (auto simp: edges_def)
  moreover have "acyclic (measure (\<lambda>n. rank n g))"
    by (rule wf_acyclic) simp
  ultimately show ?thesis by (rule acyclic_subset[rotated])
qed

text \<open>The pipeline passes the check, whatever the parameters.\<close>

lemma ordered_before_pipeline: "ordered_before [] (tensorflow_pipeline file p)"
  by (simp add: tensorflow_pipeline_def task_names task_dependencies)

subsection \<open>Invariants of a run\<close>

text \<open>In a reachable state, a task counted as succeeded did succeed, a task counted as
  failed did fail, and every started task had all its dependencies among the succeeded
  ones. The schedule that follows the order of the list is one of the runs.\<close>

lemma reachable_succeeded:
  "reachable g env s \<Longrightarrow> n \<in> set (succeeded s) \<Longrightarrow>
   \<exists>t\<in>set g. task_name t = n \<and> succeeds env t"
  by (induction rule: reachable.induct) (auto simp: initial_def)

lemma reachable_failed:
  "reachable g env s \<Longrightarrow> n \<in> set (failed s) \<Longrightarrow>
   \<exists>t\<in>set g. task_name t = n \<and> \<not> succeeds env t"
  by (induction rule: reachable.induct) (auto simp: initial_def)

lemma reachable_scheduled:
  "reachable g env s \<Longrightarrow> n \<in> scheduled s \<Longrightarrow>
   \<exists>t\<in>set g. task_name t = n \<and> set (dependencies t) \<subseteq> set (succeeded s)"
proof (induction rule: reachable.induct)
  case start
  then show ?case by (simp add: initial_def scheduled_def)
next
  case (success s t)
  then show ?case by (fastforce simp: scheduled_def ready_def)
next
  case (failure s t)
  then show ?case by (fastforce simp: scheduled_def ready_def)
qed

lemma reachable_run_task:
  "reachable g env s \<Longrightarrow> t \<in> set g \<Longrightarrow> reachable g env (run_task env s t)"
  by (auto simp: run_task_def intro: reachable.success reachable.failure)

lemma reachable_foldl:
  "reachable g env s \<Longrightarrow> set ts \<subseteq> set g \<Longrightarrow> reachable g env (foldl (run_task env) s ts)"
  by (induction ts arbitrary: s) (simp_all add: reachable_run_task)

lemma reachable_execute: "reachable g env (execute g env)"
  unfolding execute_def by (rule reachable_foldl[OF reachable.start]) simp

subsection \<open>Runs of the pipeline\<close>

text \<open>The two tasks that can refuse to succeed, and what a missing success of either blocks.\<close>

lemma gate_trips:
  "anomaly_report env \<noteq> [] \<Longrightarrow> \<not> succeeds env (anomalies file p)"
  by (simp add: succeeds_def show_anomalies_fails_def gate_flag task_components)

lemma lookup_trips:
  "(model_name p, model_label p) \<notin> set (registry env) \<Longrightarrow> \<not> succeeds env (champion_model p)"
  by (auto simp: succeeds_def lookup_model_fails_def lookup_flag task_components
      matching_models_def filter_empty_conv task_arguments)

lemma gate_never_succeeds:
  assumes r: "reachable (tensorflow_pipeline file p) env s" and a: "anomaly_report env \<noteq> []"
  shows "''anomalies'' \<notin> set (succeeded s)"
proof
  assume "''anomalies'' \<in> set (succeeded s)"
  from reachable_succeeded[OF r this] obtain t where
    t: "t \<in> set (tensorflow_pipeline file p)" "task_name t = ''anomalies''"
    and ok: "succeeds env t" by blast
  from pipeline_task_by_name(1)[OF t] ok gate_trips[OF a] show False by simp
qed

lemma lookup_never_succeeds:
  assumes r: "reachable (tensorflow_pipeline file p) env s"
    and a: "(model_name p, model_label p) \<notin> set (registry env)"
  shows "''champion_model'' \<notin> set (succeeded s)"
proof
  assume "''champion_model'' \<in> set (succeeded s)"
  from reachable_succeeded[OF r this] obtain t where
    t: "t \<in> set (tensorflow_pipeline file p)" "task_name t = ''champion_model''"
    and ok: "succeeds env t" by blast
  from pipeline_task_by_name(2)[OF t] ok lookup_trips[OF a] show False by simp
qed

lemma blocked_by_failure:
  assumes r: "reachable (tensorflow_pipeline file p) env s"
    and f: "''anomalies'' \<notin> set (succeeded s) \<or> ''champion_model'' \<notin> set (succeeded s)"
  shows "''batch_prediction'' \<notin> scheduled s \<and> ''loaded_data'' \<notin> scheduled s"
proof -
  have bp: "''batch_prediction'' \<notin> scheduled s"
  proof
    assume "''batch_prediction'' \<in> scheduled s"
    from reachable_scheduled[OF r this] obtain t where
      t: "t \<in> set (tensorflow_pipeline file p)" "task_name t = ''batch_prediction''"
      and d: "set (dependencies t) \<subseteq> set (succeeded s)" by blast
    from pipeline_task_by_name(3)[OF t] have "t = batch_prediction file p" .
    with d have "''anomalies'' \<in> set (succeeded s)" "''champion_model'' \<in> set (succeeded s)"
      by (simp_all add: task_dependencies)
    with f show False by blast
  qed
  have "''loaded_data'' \<notin> scheduled s"
  proof
    assume "''loaded_data'' \<in> scheduled s"
    from reachable_scheduled[OF r this] obtain t where
      t: "t \<in> set (tensorflow_pipeline file p)" "task_name t = ''loaded_data''"
      and d: "set (dependencies t) \<subseteq> set (succeeded s)" by blast
    from pipeline_task_by_name(4)[OF t] have "t = loaded_data file p" .
    with d have "''batch_prediction'' \<in> set (succeeded s)"
      by (simp add: task_dependencies)
    with bp show False by (simp add: scheduled_def)
  qed
  with bp show ?thesis by simp
qed

text \<open>Three runs in full: the gate trips, the model is missing, and nothing goes wrong.\<close>

lemmas run_defs = execute_def run_task_def ready_def scheduled_def succeeds_def initial_def
  show_anomalies_fails_def lookup_model_fails_def matching_models_def flag_def

lemma execute_anomalies:
  "execute (tensorflow_pipeline example_file example_parameters) env_anomalies =
     \<lparr>succeeded = [''ingest'', ''data_for_prediction'', ''data_for_validation'',
         ''serving_stats'', ''visualised_statistics'', ''validated_skew'', ''champion_model''],
      failed = [''anomalies'']\<rparr>"
  by (simp add: tensorflow_pipeline_def run_defs task_names task_dependencies task_components
      task_arguments env_anomalies_def example_parameters_def)

lemma execute_no_model:
  "execute (tensorflow_pipeline example_file example_parameters) env_no_model =
     \<lparr>succeeded = [''ingest'', ''data_for_prediction'', ''data_for_validation'',
         ''serving_stats'', ''visualised_statistics'', ''validated_skew'', ''anomalies''],
      failed = [''champion_model'']\<rparr>"
  by (simp add: tensorflow_pipeline_def run_defs task_names task_dependencies task_components
      task_arguments env_no_model_def example_parameters_def)

lemma execute_clean:
  "execute (tensorflow_pipeline example_file example_parameters) env_clean =
     \<lparr>succeeded = [''ingest'', ''data_for_prediction'', ''data_for_validation'',
         ''serving_stats'', ''visualised_statistics'', ''validated_skew'', ''anomalies'',
         ''champion_model'', ''batch_prediction'', ''loaded_data''],
      failed = []\<rparr>"
  by (simp add: tensorflow_pipeline_def run_defs task_names task_dependencies task_components
      task_arguments env_clean_def example_parameters_def)

section \<open>The claims\<close>

text \<open>
  Claim C1. In the built graph, batch inference is ordered after the anomaly gate by an
  explicit \<^verbatim>\<open>.after\<close> edge that carries no data, and load predictions depends on batch
  inference. The gate is built with fail-on-anomalies enabled, so in every state that a run
  can reach, when the skew validator's report holds at least one anomaly, neither batch
  inference nor load predictions has been started.
\<close>

theorem anomaly_gate_blocks_inference:
  assumes "reachable (tensorflow_pipeline file p) env s"
    and "anomaly_report env \<noteq> []"
  shows "batch_prediction file p \<in> set (tensorflow_pipeline file p) \<and>
         loaded_data file p \<in> set (tensorflow_pipeline file p) \<and>
         task_name (anomalies file p) \<in> set (dependent_tasks (batch_prediction file p)) \<and>
         task_name (anomalies file p) \<notin> set (data_dependencies (batch_prediction file p)) \<and>
         task_name (batch_prediction file p) \<in> set (dependencies (loaded_data file p)) \<and>
         flag (anomalies file p) ''fail_on_anomalies'' \<and>
         task_name (batch_prediction file p) \<notin> scheduled s \<and>
         task_name (loaded_data file p) \<notin> scheduled s"
proof -
  have "''anomalies'' \<notin> set (succeeded s)"
    using assms by (rule gate_never_succeeds)
  then have "''batch_prediction'' \<notin> scheduled s \<and> ''loaded_data'' \<notin> scheduled s"
    using blocked_by_failure[OF assms(1)] by blast
  then show ?thesis
    by (simp add: pipeline_members task_names ordering_edges data_edges task_dependencies
        gate_flag)
qed

theorem anomaly_gate_blocks_inference_witness:
  "reachable (tensorflow_pipeline example_file example_parameters) env_anomalies
     (execute (tensorflow_pipeline example_file example_parameters) env_anomalies) \<and>
   anomaly_report env_anomalies \<noteq> [] \<and>
   ''anomalies'' \<in> set (failed
     (execute (tensorflow_pipeline example_file example_parameters) env_anomalies)) \<and>
   ''batch_prediction'' \<notin> scheduled
     (execute (tensorflow_pipeline example_file example_parameters) env_anomalies) \<and>
   ''loaded_data'' \<notin> scheduled
     (execute (tensorflow_pipeline example_file example_parameters) env_anomalies)"
proof -
  have r: "reachable (tensorflow_pipeline example_file example_parameters) env_anomalies
     (execute (tensorflow_pipeline example_file example_parameters) env_anomalies)"
    by (rule reachable_execute)
  have a: "anomaly_report env_anomalies \<noteq> []"
    by (simp add: env_anomalies_def)
  from anomaly_gate_blocks_inference[OF r a] r a show ?thesis
    by (simp add: task_names execute_anomalies)
qed

text \<open>
  Claim C2. For every parameter assignment, the tasks of the built graph have distinct
  names, the graph's edges (data and ordering alike) form no cycle, and every task that a
  task depends on stands strictly before it in the order of construction.
\<close>

theorem pipeline_acyclic_inputs_resolved:
  "distinct (map task_name (tensorflow_pipeline file p)) \<and>
   acyclic (edges (tensorflow_pipeline file p)) \<and>
   (\<forall>i<length (tensorflow_pipeline file p).
      \<forall>d\<in>set (dependencies (tensorflow_pipeline file p ! i)).
        \<exists>j<i. task_name (tensorflow_pipeline file p ! j) = d)"
proof (intro conjI allI impI ballI)
  show "distinct (map task_name (tensorflow_pipeline file p))"
    using ordered_before_pipeline by (rule ordered_before_distinct)
  show "acyclic (edges (tensorflow_pipeline file p))"
    using ordered_before_pipeline by (rule ordered_before_acyclic)
next
  fix i d
  assume "i < length (tensorflow_pipeline file p)"
    and "d \<in> set (dependencies (tensorflow_pipeline file p ! i))"
  with ordered_before_nth[OF ordered_before_pipeline]
  show "\<exists>j<i. task_name (tensorflow_pipeline file p ! j) = d"
    by fastforce
qed

theorem pipeline_acyclic_inputs_resolved_witness:
  "acyclic (edges (tensorflow_pipeline example_file example_parameters)) \<and>
   ''anomalies'' \<in> set (dependencies (tensorflow_pipeline example_file example_parameters ! 8)) \<and>
   (\<exists>j<8. task_name (tensorflow_pipeline example_file example_parameters ! j) = ''anomalies'')"
proof -
  have l: "8 < length (tensorflow_pipeline example_file example_parameters)"
    by (simp add: tensorflow_pipeline_def)
  have d: "''anomalies'' \<in>
      set (dependencies (tensorflow_pipeline example_file example_parameters ! 8))"
    by (simp add: tensorflow_pipeline_def task_dependencies)
  from pipeline_acyclic_inputs_resolved[of example_file example_parameters] l d
  show ?thesis by blast
qed

text \<open>
  Claim C3. Model lookup is built with \<^verbatim>\<open>fail_on_model_not_found=True\<close>, and batch inference
  takes the output \<^verbatim>\<open>model\<close> of the lookup as its model. When no registered model has the
  given name and label, the lookup never succeeds, and in every state that a run can reach
  neither batch inference nor the step after it has been started.
\<close>

theorem missing_model_halts_before_inference:
  assumes "reachable (tensorflow_pipeline file p) env s"
    and "(model_name p, model_label p) \<notin> set (registry env)"
  shows "flag (champion_model p) ''fail_on_model_not_found'' \<and>
         lookup_arg (batch_prediction file p) (Kw ''model'') =
           Some (outputs (champion_model p) ''model'') \<and>
         task_name (champion_model p) \<in> set (data_dependencies (batch_prediction file p)) \<and>
         task_name (champion_model p) \<notin> set (succeeded s) \<and>
         task_name (batch_prediction file p) \<notin> scheduled s \<and>
         task_name (loaded_data file p) \<notin> scheduled s"
proof -
  have "''champion_model'' \<notin> set (succeeded s)"
    using assms by (rule lookup_never_succeeds)
  moreover from this
  have "''batch_prediction'' \<notin> scheduled s \<and> ''loaded_data'' \<notin> scheduled s"
    using blocked_by_failure[OF assms(1)] by blast
  ultimately show ?thesis
    by (simp add: task_names data_edges lookup_flag task_arguments outputs_def)
qed

theorem missing_model_halts_before_inference_witness:
  "reachable (tensorflow_pipeline example_file example_parameters) env_no_model
     (execute (tensorflow_pipeline example_file example_parameters) env_no_model) \<and>
   (model_name example_parameters, model_label example_parameters)
     \<notin> set (registry env_no_model) \<and>
   ''champion_model'' \<in> set (failed
     (execute (tensorflow_pipeline example_file example_parameters) env_no_model)) \<and>
   ''batch_prediction'' \<notin> scheduled
     (execute (tensorflow_pipeline example_file example_parameters) env_no_model)"
proof -
  have r: "reachable (tensorflow_pipeline example_file example_parameters) env_no_model
     (execute (tensorflow_pipeline example_file example_parameters) env_no_model)"
    by (rule reachable_execute)
  have a: "(model_name example_parameters, model_label example_parameters)
     \<notin> set (registry env_no_model)"
    by (simp add: env_no_model_def example_parameters_def)
  from missing_model_halts_before_inference[OF r a] r a show ?thesis
    by (simp add: task_names execute_no_model)
qed

text \<open>
  Claim C4. With \<^verbatim>\<open>ingestion_dataset_id="chicago_taxi_trips"\<close> and
  \<^verbatim>\<open>timestamp="2022-12-01 00:00:00"\<close>, the builder calls the templater with the source
  dataset \<^verbatim>\<open>{ingestion_project_id}.chicago_taxi_trips\<close>, the source table \<^verbatim>\<open>taxi_trips\<close>, the
  filter column \<^verbatim>\<open>trip_start_timestamp\<close> and the start value \<^verbatim>\<open>2022-12-01 00:00:00\<close>; the
  query it renders, which is the query of the ingest task, filters
  \<^verbatim>\<open>trip_start_timestamp >= '2022-12-01 00:00:00'\<close> against the table
  \<^verbatim>\<open>{ingestion_project_id}.chicago_taxi_trips.taxi_trips\<close>.
\<close>

theorem ingest_query_filters_from_timestamp:
  assumes "ingestion_dataset_id p = ''chicago_taxi_trips''"
    and "timestamp p = ''2022-12-01 00:00:00''"
  shows "lookup_arg (ingest file p) (Kw ''query'') = Some (QueryArg (ingest_query file p)) \<and>
         ingest_query file p =
           generate_query (slash (queries_folder file) ''ingest.sql'')
             (ingestion_project_id p @ ''.chicago_taxi_trips'') ''taxi_trips''
             ''trip_start_timestamp'' ''2022-12-01 00:00:00'' \<and>
         where_filter (ingest_query file p) =
           ''trip_start_timestamp >= '' @ [CHR 0x27] @ ''2022-12-01 00:00:00'' @ [CHR 0x27] \<and>
         from_table (ingest_query file p) =
           ingestion_project_id p @ ''.chicago_taxi_trips.taxi_trips''"
  using assms
  by (simp add: ingest_arguments ingest_query_def generate_query_def quoted_def
      time_column_def ingestion_table_def)

theorem ingest_query_filters_from_timestamp_witness:
  "ingestion_dataset_id example_parameters = ''chicago_taxi_trips'' \<and>
   timestamp example_parameters = ''2022-12-01 00:00:00'' \<and>
   where_filter (ingest_query example_file example_parameters) =
     ''trip_start_timestamp >= '' @ [CHR 0x27] @ ''2022-12-01 00:00:00'' @ [CHR 0x27] \<and>
   from_table (ingest_query example_file example_parameters) =
     ''my-project.chicago_taxi_trips.taxi_trips''"
proof -
  have d: "ingestion_dataset_id example_parameters = ''chicago_taxi_trips''"
    by (simp add: example_parameters_def)
  have t: "timestamp example_parameters = ''2022-12-01 00:00:00''"
    by (simp add: example_parameters_def)
  have i: "ingestion_project_id example_parameters = ''my-project''"
    by (simp add: example_parameters_def)
  note w = ingest_query_filters_from_timestamp[OF d t, of example_file]
  from w have f: "where_filter (ingest_query example_file example_parameters) =
      ''trip_start_timestamp >= '' @ [CHR 0x27] @ ''2022-12-01 00:00:00'' @ [CHR 0x27]"
    by blast
  from w have "from_table (ingest_query example_file example_parameters) =
      ingestion_project_id example_parameters @ ''.chicago_taxi_trips.taxi_trips''"
    by blast
  with i have "from_table (ingest_query example_file example_parameters) =
      ''my-project.chicago_taxi_trips.taxi_trips''"
    by simp
  with d t f show ?thesis by blast
qed

text \<open>
  Claim C5. For every base path and schema file name, the schema path, which is the
  \<^verbatim>\<open>schema_path\<close> of the skew validator, is the base path, the fixed sub-path
  \<^verbatim>\<open>prediction/assets\<close> and the file name joined by \<^verbatim>\<open>/\<close>; with the base path
  \<^verbatim>\<open>gs://bucket\<close> and the file name \<^verbatim>\<open>schema.pbtxt\<close> it is
  \<^verbatim>\<open>gs://bucket/prediction/assets/schema.pbtxt\<close>.
\<close>

theorem schema_path_is_joined:
  "tfdv_schema_path p =
     join_paths [pipeline_files_gcs_path p, ''prediction/assets'', tfdv_schema_filename p] \<and>
   lookup_arg (validated_skew file p) (Kw ''schema_path'') =
     Some (StrArg (join_paths
       [pipeline_files_gcs_path p, ''prediction/assets'', tfdv_schema_filename p])) \<and>
   tfdv_schema_path
     (p\<lparr>pipeline_files_gcs_path := ''gs://bucket'', tfdv_schema_filename := ''schema.pbtxt''\<rparr>) =
     ''gs://bucket/prediction/assets/schema.pbtxt''"
  by (simp add: schema_path_argument tfdv_schema_path_def)

text \<open>
  Claim C6. The ingest task is given the rendered query, the table name
  \<^verbatim>\<open>ingested_data\<close> followed by the fixed suffix, and a job configuration whose write
  disposition is \<^verbatim>\<open>WRITE_TRUNCATE\<close>: after the job the staging table holds the rows of the
  query whatever it held before, never the prior rows followed by the new ones. The task
  depends on no other task, only on parameters.
\<close>

theorem ingest_truncates_and_replaces:
  "lookup_arg (ingest file p) (Kw ''query'') = Some (QueryArg (ingest_query file p)) \<and>
   lookup_arg (ingest file p) (Kw ''table_id'') = Some (StrArg (''ingested_data'' @ table_suffix)) \<and>
   table_suffix = ''_tf_prediction'' \<and>
   lookup_arg (ingest file p) (Kw ''query_job_config'') =
     Some (json_dumps [(''write_disposition'', ''WRITE_TRUNCATE'')]) \<and>
   write_mode_of (lookup_arg (ingest file p) (Kw ''query_job_config'')) =
     Some Truncate_and_replace \<and>
   table_after (ingest file p) prior rows = Some rows \<and>
   dependencies (ingest file p) = []"
  by (simp add: ingest_arguments ingested_table_def table_suffix_def json_dumps_def
      table_after_def task_dependencies)

text \<open>
  Claim C7. Both extraction tasks are ordered after the ingest task by an explicit edge
  and take no output of it; both export the table the ingest task writes (same project,
  dataset and table name) with an empty file pattern. The extract for prediction asks for
  \<^verbatim>\<open>NEWLINE_DELIMITED_JSON\<close>, the extract for validation for \<^verbatim>\<open>CSV\<close>, and the format is
  the only argument in which the two calls differ: the builder names no destination. The
  two extracts are two tasks, so when the engine keeps the storage of each task apart, the
  validation extract writes to another place than the prediction extract. The statistics
  task reads the output of the validation extract, batch inference reads the outputs of
  the prediction extract.
\<close>

theorem extracts_follow_ingest:
  assumes "inj location"
  shows
  "dependent_tasks (data_for_prediction file p) = [task_name (ingest file p)] \<and>
   dependent_tasks (data_for_validation file p) = [task_name (ingest file p)] \<and>
   task_name (ingest file p) = ''ingest'' \<and>
   data_dependencies (data_for_prediction file p) = [] \<and>
   data_dependencies (data_for_validation file p) = [] \<and>
   lookup_arg (ingest file p) (Kw ''destination_project_id'') = Some (StrArg (project_id p)) \<and>
   lookup_arg (ingest file p) (Kw ''dataset_id'') = Some (StrArg (dataset_id p)) \<and>
   lookup_arg (ingest file p) (Kw ''table_id'') = Some (StrArg ''ingested_data_tf_prediction'') \<and>
   lookup_arg (data_for_prediction file p) (Kw ''source_project_id'') =
     Some (StrArg (project_id p)) \<and>
   lookup_arg (data_for_prediction file p) (Kw ''dataset_id'') = Some (StrArg (dataset_id p)) \<and>
   lookup_arg (data_for_prediction file p) (Kw ''table_name'') =
     Some (StrArg ''ingested_data_tf_prediction'') \<and>
   lookup_arg (data_for_validation file p) (Kw ''source_project_id'') =
     Some (StrArg (project_id p)) \<and>
   lookup_arg (data_for_validation file p) (Kw ''dataset_id'') = Some (StrArg (dataset_id p)) \<and>
   lookup_arg (data_for_validation file p) (Kw ''table_name'') =
     Some (StrArg ''ingested_data_tf_prediction'') \<and>
   lookup_arg (data_for_prediction file p) (Kw ''file_pattern'') = Some (StrArg '''') \<and>
   lookup_arg (data_for_validation file p) (Kw ''file_pattern'') = Some (StrArg '''') \<and>
   lookup_arg (data_for_prediction file p) (Kw ''extract_job_config'') =
     Some (JsonArg [(''destination_format'', ''NEWLINE_DELIMITED_JSON'')]) \<and>
   lookup_arg (data_for_validation file p) (Kw ''extract_job_config'') =
     Some (JsonArg [(''destination_format'', ''CSV'')]) \<and>
   map fst (arguments (data_for_prediction file p)) =
     [Kw ''bq_client_project_id'', Kw ''source_project_id'', Kw ''dataset_id'',
      Kw ''table_name'', Kw ''dataset_location'', Kw ''extract_job_config'',
      Kw ''file_pattern''] \<and>
   arguments (data_for_validation file p) =
     (arguments (data_for_prediction file p))
       [5 := (Kw ''extract_job_config'', JsonArg [(''destination_format'', ''CSV'')])] \<and>
   task_name (data_for_prediction file p) = ''data_for_prediction'' \<and>
   task_name (data_for_validation file p) = ''data_for_validation'' \<and>
   extract_destination location (data_for_validation file p) \<noteq>
     extract_destination location (data_for_prediction file p) \<and>
   lookup_arg (serving_stats file p) (Pos 0) =
     Some (Outputs ''data_for_validation'' ''dataset'') \<and>
   lookup_arg (batch_prediction file p) (Kw ''gcs_source_uris'') =
     Some (Outputs ''data_for_prediction'' ''dataset_gcs_uri'') \<and>
   lookup_arg (batch_prediction file p) (Kw ''gcs_destination_output_uri_prefix'') =
     Some (Outputs ''data_for_prediction'' ''dataset_gcs_prefix'')"
proof -
  have "location ''data_for_validation'' \<noteq> location ''data_for_prediction''"
  proof
    assume "location ''data_for_validation'' = location ''data_for_prediction''"
    with assms have "''data_for_validation'' = ''data_for_prediction''"
      by (rule injD)
    then show False by simp
  qed
  then have "extract_destination location (data_for_validation file p) \<noteq>
      extract_destination location (data_for_prediction file p)"
    by (simp add: extract_destination_def task_names)
  moreover have "map fst (arguments (data_for_prediction file p)) =
      [Kw ''bq_client_project_id'', Kw ''source_project_id'', Kw ''dataset_id'',
       Kw ''table_name'', Kw ''dataset_location'', Kw ''extract_job_config'',
       Kw ''file_pattern'']"
    by (simp add: builder_defs)
  moreover have "arguments (data_for_validation file p) =
      (arguments (data_for_prediction file p))
        [5 := (Kw ''extract_job_config'', JsonArg [(''destination_format'', ''CSV'')])]"
    by (simp add: builder_defs)
  ultimately show ?thesis
    by (simp add: ordering_edges data_edges extract_arguments ingest_arguments
        consumer_arguments task_names ingested_table_def table_suffix_def)
qed

theorem extracts_follow_ingest_witness:
  "inj example_location \<and>
   extract_destination example_location (data_for_validation example_file example_parameters) =
     ''gs://bucket/pipeline_root/data_for_validation'' \<and>
   extract_destination example_location (data_for_prediction example_file example_parameters) =
     ''gs://bucket/pipeline_root/data_for_prediction'' \<and>
   extract_destination example_location (data_for_validation example_file example_parameters) \<noteq>
     extract_destination example_location (data_for_prediction example_file example_parameters) \<and>
   lookup_arg (data_for_validation example_file example_parameters) (Kw ''extract_job_config'') =
     Some (JsonArg [(''destination_format'', ''CSV'')]) \<and>
   lookup_arg (data_for_prediction example_file example_parameters) (Kw ''extract_job_config'') =
     Some (JsonArg [(''destination_format'', ''NEWLINE_DELIMITED_JSON'')])"
proof -
  have i: "inj example_location"
    by (simp add: inj_on_def example_location_def)
  have v: "extract_destination example_location
      (data_for_validation example_file example_parameters) =
      ''gs://bucket/pipeline_root/data_for_validation''"
    and d: "extract_destination example_location
      (data_for_prediction example_file example_parameters) =
      ''gs://bucket/pipeline_root/data_for_prediction''"
    by (simp_all add: extract_destination_def example_location_def task_names)
  from extracts_follow_ingest[OF i, of example_file example_parameters] i v d
  show ?thesis by blast
qed

text \<open>
  Claim C8. Two runs of the builder with identical parameter values, wherever the module
  file lies, give the ingest task the same table name and the skew validator the same
  schema path.
\<close>

theorem derived_names_deterministic:
  assumes "p = p'"
  shows "lookup_arg (ingest file p) (Kw ''table_id'') =
           lookup_arg (ingest file' p') (Kw ''table_id'') \<and>
         lookup_arg (ingest file p) (Kw ''table_id'') = Some (StrArg ingested_table) \<and>
         lookup_arg (validated_skew file p) (Kw ''schema_path'') =
           lookup_arg (validated_skew file' p') (Kw ''schema_path'') \<and>
         lookup_arg (validated_skew file p) (Kw ''schema_path'') =
           Some (StrArg (tfdv_schema_path p)) \<and>
         tfdv_schema_path p = tfdv_schema_path p'"
  using assms by (simp add: ingest_arguments schema_path_argument)

theorem derived_names_deterministic_witness:
  "example_parameters = example_parameters \<and>
   lookup_arg (ingest example_file example_parameters) (Kw ''table_id'') =
     lookup_arg (ingest [''tmp'', ''pipeline.py''] example_parameters) (Kw ''table_id'') \<and>
   lookup_arg (validated_skew example_file example_parameters) (Kw ''schema_path'') =
     lookup_arg (validated_skew [''tmp'', ''pipeline.py''] example_parameters) (Kw ''schema_path'')"
  using derived_names_deterministic[OF refl, of example_file example_parameters
      "[''tmp'', ''pipeline.py'']"]
  by simp

text \<open>
  Claim C9. The statistics-visualisation task is in the graph and no task depends on it,
  by data or by ordering: not the skew validator, not the anomaly gate, not batch
  inference, not load predictions, nor any other task; no edge of the graph leaves it.
\<close>

theorem visualisation_has_no_consumer:
  "visualised_statistics file p \<in> set (tensorflow_pipeline file p) \<and>
   (\<forall>t\<in>set (tensorflow_pipeline file p).
      task_name (visualised_statistics file p) \<notin> set (dependencies t)) \<and>
   task_name (visualised_statistics file p) \<notin> set (dependencies (validated_skew file p)) \<and>
   task_name (visualised_statistics file p) \<notin> set (dependencies (anomalies file p)) \<and>
   task_name (visualised_statistics file p) \<notin> set (dependencies (batch_prediction file p)) \<and>
   task_name (visualised_statistics file p) \<notin> set (dependencies (loaded_data file p)) \<and>
   (\<forall>n. (task_name (visualised_statistics file p), n) \<notin> edges (tensorflow_pipeline file p))"
  by (auto simp: tensorflow_pipeline_def task_names task_dependencies edges_def)

theorem visualisation_has_no_consumer_witness:
  "validated_skew example_file example_parameters
     \<in> set (tensorflow_pipeline example_file example_parameters) \<and>
   ''visualised_statistics'' \<notin> set (dependencies (validated_skew example_file example_parameters))"
proof -
  have m: "validated_skew example_file example_parameters
     \<in> set (tensorflow_pipeline example_file example_parameters)"
    by (rule pipeline_members)
  from visualisation_has_no_consumer[of example_file example_parameters] m show ?thesis
    by (simp add: task_names)
qed

text \<open>
  Claim C10. For every parameter assignment, the anomaly gate is built with
  \<^verbatim>\<open>fail_on_anomalies=True\<close> and the model lookup with \<^verbatim>\<open>fail_on_model_not_found=True\<close>; in
  the built graph every task of either component has its flag set.
\<close>

theorem failure_flags_hard_coded:
  "lookup_arg (anomalies file p) (Kw ''fail_on_anomalies'') = Some (BoolArg True) \<and>
   lookup_arg (champion_model p) (Kw ''fail_on_model_not_found'') = Some (BoolArg True) \<and>
   (\<forall>t\<in>set (tensorflow_pipeline file p).
      (component t = ''show_anomalies'' \<longrightarrow> flag t ''fail_on_anomalies'') \<and>
      (component t = ''lookup_model'' \<longrightarrow> flag t ''fail_on_model_not_found''))"
  by (auto simp: task_arguments tensorflow_pipeline_def task_components gate_flag lookup_flag)

theorem failure_flags_hard_coded_witness:
  "anomalies example_file example_parameters
     \<in> set (tensorflow_pipeline example_file example_parameters) \<and>
   component (anomalies example_file example_parameters) = ''show_anomalies'' \<and>
   flag (anomalies example_file example_parameters) ''fail_on_anomalies'' \<and>
   champion_model example_parameters
     \<in> set (tensorflow_pipeline example_file example_parameters) \<and>
   component (champion_model example_parameters) = ''lookup_model'' \<and>
   flag (champion_model example_parameters) ''fail_on_model_not_found''"
proof -
  have a: "anomalies example_file example_parameters
     \<in> set (tensorflow_pipeline example_file example_parameters)"
    and c: "champion_model example_parameters
     \<in> set (tensorflow_pipeline example_file example_parameters)"
    by (rule pipeline_members)+
  have ca: "component (anomalies example_file example_parameters) = ''show_anomalies''"
    and cc: "component (champion_model example_parameters) = ''lookup_model''"
    by (rule task_components)+
  from failure_flags_hard_coded[of example_file example_parameters] a c ca cc show ?thesis
    by blast
qed

end
